theory Spec2Isabelle
  imports Complex_Main "HOL-Library.AList"
begin

section \<open>JavaScript values, texts and strings\<close>

text \<open>
  The services are TypeScript; at run time the declared types are erased, so a parameter
  declared \<open>number\<close> holds whatever the caller passes. The values that reach a template
  string here are numbers (user ids), strings (a symbol passed where a user id is
  expected) and \<open>undefined\<close> (a property that the object read does not have).
\<close>

datatype error = ConnectionError | ReplyError | SyntaxError | TypeError

datatype jsv = Undefined | Number real | Boolean bool | String string

definition digit_char :: "nat \<Rightarrow> char" where
  "digit_char d = ''0123456789'' ! d"

fun nat_text :: "nat \<Rightarrow> string" where
  "nat_text n = (if n < 10 then [digit_char n] else nat_text (n div 10) @ [digit_char (n mod 10)])"

declare nat_text.simps [simp del]

text \<open>
  The text of a number inside a template string. It is the decimal numeral for an integral
  number below \<open>10^21\<close> in magnitude, which is what user ids are; JavaScript prints other
  numbers with a fraction or an exponent, and that text is not modelled (the magnitude is
  truncated).
\<close>

definition number_text :: "real \<Rightarrow> string" where
  "number_text r = (if r < 0 then ''-'' else []) @ nat_text (nat \<lfloor>\<bar>r\<bar>\<rfloor>)"

fun template_text :: "jsv \<Rightarrow> string" where
  "template_text Undefined = ''undefined''"
| "template_text (Number r) = number_text r"
| "template_text (Boolean b) = (if b then ''true'' else ''false'')"
| "template_text (String s) = s"

text \<open>\<open>s.startsWith(p)\<close>\<close>

definition startsWith :: "string \<Rightarrow> string \<Rightarrow> bool" where
  "startsWith s p = (take (length p) s = p)"

text \<open>\<open>s.split(c)\<close>: never empty, \<open>''''.split(':')\<close> is \<open>['''']\<close>.\<close>

fun split_on :: "char \<Rightarrow> string \<Rightarrow> string list" where
  "split_on c [] = [[]]"
| "split_on c (x # xs) =
     (if x = c then [] # split_on c xs
      else (case split_on c xs of [] \<Rightarrow> [[x]] | w # ws \<Rightarrow> (x # w) # ws))"

text \<open>
  \<open>key.split(':')[2]\<close> used as a property name: an index out of range reads \<open>undefined\<close>,
  and the property is then named \<open>undefined\<close>.
\<close>

definition symbol_of_key :: "string \<Rightarrow> string" where
  "symbol_of_key key =
     (let parts = split_on CHR '':'' key
      in if 2 < length parts then parts ! 2 else ''undefined'')"

text \<open>
  Redis \<open>KEYS pattern\<close>: \<open>*\<close> matches any run of characters and \<open>?\<close> one character;
  every other character stands for itself (character classes and escapes are not
  modelled: the patterns built here are \<open>alert:<id>:*\<close>).
\<close>

fun glob :: "string \<Rightarrow> string \<Rightarrow> bool" where
  "glob [] s = (s = [])"
| "glob (p # ps) [] = (p = CHR ''*'' \<and> glob ps [])"
| "glob (p # ps) (x # xs) =
     (if p = CHR ''*'' then glob ps (x # xs) \<or> glob (p # ps) xs
      else (p = CHR ''?'' \<or> p = x) \<and> glob ps xs)"

section \<open>Stored values\<close>

text \<open>
  \<open>inMemoryStorage\<close> is a \<open>Map<string, any>\<close>. What the services put into it are the alert
  object \<open>{ symbol, price, isAbove }\<close>, a portfolio \<open>Record<string, number>\<close>, and
  strings. A string is either a plain text or the text \<open>JSON.stringify(v)\<close> of a value;
  the latter is kept symbolic as \<open>JSONText v\<close>, so that \<open>JSON.parse\<close> gives \<open>v\<close> back.
  \<open>PriceData\<close> is the snapshot \<open>{ price, change24h, volume24h, marketCap }\<close> of
  crypto.service.ts. Numbers are real numbers (no NaN, no rounding).
\<close>

datatype val =
    AlertData string real bool
  | Portfolio "(string \<times> real) list"
  | PriceData real real real real
  | Text string
  | JSONText val

text \<open>Truthiness, as in \<open>x || null\<close> and \<open>if (x)\<close>: of these only the empty string is falsy.\<close>

fun truthy :: "val \<Rightarrow> bool" where
  "truthy (Text s) = (s \<noteq> [])"
| "truthy _ = True"

text \<open>\<open>x || null\<close> on the result of \<open>Map.get\<close> (\<open>None\<close> is both \<open>undefined\<close> and \<open>null\<close>).\<close>

definition or_null :: "val option \<Rightarrow> val option" where
  "or_null x = (case x of None \<Rightarrow> None | Some v \<Rightarrow> if truthy v then Some v else None)"

text \<open>\<open>x || {}\<close>\<close>

definition or_empty :: "val option \<Rightarrow> val" where
  "or_empty x = (case or_null x of None \<Rightarrow> Portfolio [] | Some v \<Rightarrow> v)"

text \<open>
  \<open>JSON.parse\<close>: the inverse of \<open>JSON.stringify\<close> on the texts it wrote. A plain text is
  taken not to be a JSON document, and an object is first turned into the text
  \<open>[object Object]\<close>: both raise \<open>SyntaxError\<close>.
\<close>

fun JSON_parse :: "val \<Rightarrow> error + val" where
  "JSON_parse (JSONText v) = Inr v"
| "JSON_parse _ = Inl SyntaxError"

section \<open>The Redis service (redis.service.ts)\<close>

text \<open>
  The state of \<open>RedisService\<close> and of the server behind it. \<open>redis\<close> says that the client
  object exists (\<open>this.redis\<close> is not null). \<open>server\<close> is the data of the remote server:
  a value and, for a key set with \<open>EX\<close>, the time (in seconds) at which it expires.
  \<open>faults\<close> is the environment: the \<open>n\<close>-th command sent to the server fails when
  \<open>faults n\<close> holds, and \<open>calls\<close> counts the commands sent. Logging is left out.
\<close>

record redis_service =
  redis :: bool
  inMemoryStorage :: "(string \<times> val) list"
  isRedisAvailable :: bool
  server :: "(string \<times> val \<times> nat option) list"
  clock :: nat
  faults :: "nat \<Rightarrow> bool"
  calls :: nat

text \<open>The handlers installed by \<open>initializeRedis\<close> for the events \<open>error\<close> and \<open>connect\<close>.\<close>

definition on_error :: "redis_service \<Rightarrow> redis_service" where
  "on_error st = st\<lparr>isRedisAvailable := False\<rparr>"

definition on_connect :: "redis_service \<Rightarrow> redis_service" where
  "on_connect st = st\<lparr>isRedisAvailable := True\<rparr>"

text \<open>Time passing on the server.\<close>

definition elapse :: "nat \<Rightarrow> redis_service \<Rightarrow> redis_service" where
  "elapse dt st = st\<lparr>clock := clock st + dt\<rparr>"

subsection \<open>The commands of the client\<close>

definition sent :: "redis_service \<Rightarrow> redis_service" where
  "sent st = st\<lparr>calls := Suc (calls st)\<rparr>"

definition live :: "nat \<Rightarrow> val \<times> nat option \<Rightarrow> bool" where
  "live now e = (case snd e of None \<Rightarrow> True | Some t \<Rightarrow> now < t)"

text \<open>\<open>redis.set(key, value)\<close> and \<open>redis.set(key, value, 'EX', seconds)\<close>\<close>

definition redis_set ::
  "string \<Rightarrow> val \<Rightarrow> int option \<Rightarrow> redis_service \<Rightarrow> (error + unit) \<times> redis_service" where
  "redis_set key v ex st =
     (if faults st (calls st) then (Inl ConnectionError, sent st)
      else (case ex of
          None \<Rightarrow> (Inr (), (sent st)\<lparr>server := AList.update key (v, None) (server st)\<rparr>)
        | Some n \<Rightarrow>
            if n \<le> 0 then (Inl ReplyError, sent st)
            else (Inr (),
              (sent st)\<lparr>server := AList.update key (v, Some (clock st + nat n)) (server st)\<rparr>)))"

definition redis_get ::
  "string \<Rightarrow> redis_service \<Rightarrow> (error + val option) \<times> redis_service" where
  "redis_get key st =
     (if faults st (calls st) then (Inl ConnectionError, sent st)
      else (Inr (case map_of (server st) key of
                   None \<Rightarrow> None
                 | Some e \<Rightarrow> if live (clock st) e then Some (fst e) else None),
            sent st))"

definition redis_del ::
  "string list \<Rightarrow> redis_service \<Rightarrow> (error + unit) \<times> redis_service" where
  "redis_del keys st =
     (if faults st (calls st) then (Inl ConnectionError, sent st)
      else (Inr (), (sent st)\<lparr>server := filter (\<lambda>p. fst p \<notin> set keys) (server st)\<rparr>))"

definition redis_keys ::
  "string \<Rightarrow> redis_service \<Rightarrow> (error + string list) \<times> redis_service" where
  "redis_keys pattern st =
     (if faults st (calls st) then (Inl ConnectionError, sent st)
      else (Inr (map fst (filter (\<lambda>p. glob pattern (fst p) \<and> live (clock st) (snd p)) (server st))),
            sent st))"

subsection \<open>The methods of the service\<close>

definition getKey :: "string \<Rightarrow> jsv \<Rightarrow> string option \<Rightarrow> string" where
  "getKey type userId symbol =
     type @ '':'' @ template_text userId @
     (case symbol of None \<Rightarrow> [] | Some s \<Rightarrow> if s \<noteq> [] then '':'' @ s else [])"

definition memory_set :: "string \<Rightarrow> val \<Rightarrow> redis_service \<Rightarrow> redis_service" where
  "memory_set key v st = st\<lparr>inMemoryStorage := AList.update key v (inMemoryStorage st)\<rparr>"

definition memory_delete :: "string \<Rightarrow> redis_service \<Rightarrow> redis_service" where
  "memory_delete key st = st\<lparr>inMemoryStorage := AList.delete key (inMemoryStorage st)\<rparr>"

definition memory_get :: "string \<Rightarrow> redis_service \<Rightarrow> val option" where
  "memory_get key st = map_of (inMemoryStorage st) key"

definition setPriceAlert ::
  "jsv \<Rightarrow> string \<Rightarrow> real \<Rightarrow> bool \<Rightarrow> redis_service \<Rightarrow> redis_service" where
  "setPriceAlert userId symbol price isAbove st =
     (let key = getKey ''alert'' userId (Some symbol);
          data = AlertData symbol price isAbove
      in if isRedisAvailable st \<and> redis st then
           (case redis_set key (JSONText data) None st of
              (Inr _, st1) \<Rightarrow> st1
            | (Inl _, st1) \<Rightarrow> memory_set key data st1)
         else memory_set key data st)"

text \<open>
  The alerts of the in-memory store whose key starts with \<open>alert:${userId}\<close>, assigned one
  after the other to the property \<open>key.split(':')[2]\<close> of the result: the loop of
  \<open>getPriceAlerts\<close>, and the \<open>Object.fromEntries\<close> of its \<open>catch\<close>, which builds the same
  object. A later entry replaces an earlier one with the same property name.
\<close>

definition memory_alerts :: "jsv \<Rightarrow> redis_service \<Rightarrow> (string \<times> val) list" where
  "memory_alerts userId st =
     foldl (\<lambda>alerts p. AList.update (symbol_of_key (fst p)) (snd p) alerts) []
       (filter (\<lambda>p. startsWith (fst p) (''alert:'' @ template_text userId)) (inMemoryStorage st))"

text \<open>The loop of \<open>getPriceAlerts\<close> over the keys that \<open>redis.keys\<close> returned.\<close>

fun remote_alerts ::
  "string list \<Rightarrow> (string \<times> val) list \<Rightarrow> redis_service
     \<Rightarrow> (error + (string \<times> val) list) \<times> redis_service" where
  "remote_alerts [] alerts st = (Inr alerts, st)"
| "remote_alerts (key # keys) alerts st =
     (case redis_get key st of
        (Inl e, st1) \<Rightarrow> (Inl e, st1)
      | (Inr None, st1) \<Rightarrow> remote_alerts keys alerts st1
      | (Inr (Some data), st1) \<Rightarrow>
          if truthy data then
            (case JSON_parse data of
               Inl e \<Rightarrow> (Inl e, st1)
             | Inr v \<Rightarrow> remote_alerts keys (AList.update (symbol_of_key key) v alerts) st1)
          else remote_alerts keys alerts st1)"

definition getPriceAlerts :: "jsv \<Rightarrow> redis_service \<Rightarrow> (string \<times> val) list \<times> redis_service" where
  "getPriceAlerts userId st =
     (let pattern = getKey ''alert'' userId (Some ''*'')
      in if isRedisAvailable st \<and> redis st then
           (case redis_keys pattern st of
              (Inl _, st1) \<Rightarrow> (memory_alerts userId st1, st1)
            | (Inr keys, st1) \<Rightarrow>
                (case remote_alerts keys [] st1 of
                   (Inl _, st2) \<Rightarrow> (memory_alerts userId st2, st2)
                 | (Inr alerts, st2) \<Rightarrow> (alerts, st2)))
         else (memory_alerts userId st, st))"

text \<open>\<open>removePriceAlert\<close> has no \<open>try\<close>: a failing \<open>redis.del\<close> is thrown to the caller.\<close>

definition removePriceAlert ::
  "jsv \<Rightarrow> string \<Rightarrow> bool \<Rightarrow> redis_service \<Rightarrow> (error + unit) \<times> redis_service" where
  "removePriceAlert userId symbol isAbove st =
     (let key = getKey ''alert'' userId (Some symbol)
      in if isRedisAvailable st \<and> redis st then redis_del [key] st
         else (Inr (), memory_delete key st))"

definition setCacheWithExpiry ::
  "string \<Rightarrow> val \<Rightarrow> int \<Rightarrow> redis_service \<Rightarrow> (error + unit) \<times> redis_service" where
  "setCacheWithExpiry key v expirySeconds st =
     (if isRedisAvailable st \<and> redis st then redis_set key v (Some expirySeconds) st
      else (Inr (), memory_set key v st))"

definition getCache :: "string \<Rightarrow> redis_service \<Rightarrow> (error + val option) \<times> redis_service" where
  "getCache key st =
     (if isRedisAvailable st \<and> redis st then redis_get key st
      else (Inr (or_null (memory_get key st)), st))"

definition deleteCache :: "string \<Rightarrow> redis_service \<Rightarrow> (error + unit) \<times> redis_service" where
  "deleteCache key st =
     (if isRedisAvailable st \<and> redis st then redis_del [key] st
      else (Inr (), memory_delete key st))"

definition setUserPortfolio :: "jsv \<Rightarrow> val \<Rightarrow> redis_service \<Rightarrow> redis_service" where
  "setUserPortfolio userId portfolio st =
     (let key = getKey ''portfolio'' userId None
      in if isRedisAvailable st \<and> redis st then
           (case redis_set key (JSONText portfolio) None st of
              (Inr _, st1) \<Rightarrow> st1
            | (Inl _, st1) \<Rightarrow> memory_set key portfolio st1)
         else memory_set key portfolio st)"

definition getUserPortfolio :: "jsv \<Rightarrow> redis_service \<Rightarrow> val \<times> redis_service" where
  "getUserPortfolio userId st =
     (let key = getKey ''portfolio'' userId None
      in if isRedisAvailable st \<and> redis st then
           (case redis_get key st of
              (Inl _, st1) \<Rightarrow> (or_empty (memory_get key st1), st1)
            | (Inr None, st1) \<Rightarrow> (Portfolio [], st1)
            | (Inr (Some data), st1) \<Rightarrow>
                if truthy data then
                  (case JSON_parse data of
                     Inl _ \<Rightarrow> (or_empty (memory_get key st1), st1)
                   | Inr v \<Rightarrow> (v, st1))
                else (Portfolio [], st1))
         else (or_empty (memory_get key st), st))"

definition setWebhook :: "jsv \<Rightarrow> string \<Rightarrow> redis_service \<Rightarrow> redis_service" where
  "setWebhook userId url st =
     (let key = getKey ''webhook'' userId None
      in if isRedisAvailable st \<and> redis st then
           (case redis_set key (Text url) None st of
              (Inr _, st1) \<Rightarrow> st1
            | (Inl _, st1) \<Rightarrow> memory_set key (Text url) st1)
         else memory_set key (Text url) st)"

definition getWebhook :: "jsv \<Rightarrow> redis_service \<Rightarrow> val option \<times> redis_service" where
  "getWebhook userId st =
     (let key = getKey ''webhook'' userId None
      in if isRedisAvailable st \<and> redis st then
           (case redis_get key st of
              (Inl _, st1) \<Rightarrow> (or_null (memory_get key st1), st1)
            | (Inr r, st1) \<Rightarrow> (r, st1))
         else (or_null (memory_get key st), st))"

definition removeWebhook :: "jsv \<Rightarrow> redis_service \<Rightarrow> (error + unit) \<times> redis_service" where
  "removeWebhook userId st =
     (let key = getKey ''webhook'' userId None
      in if isRedisAvailable st \<and> redis st then redis_del [key] st
         else (Inr (), memory_delete key st))"

text \<open>
  The loop of \<open>clearUserAlerts\<close> over \<open>inMemoryStorage.keys()\<close>, deleting as it goes: a
  \<open>Map\<close> iterator skips deleted entries, so every entry whose key has the prefix is
  removed and the others stay in their order.
\<close>

definition memory_clear :: "jsv \<Rightarrow> redis_service \<Rightarrow> redis_service" where
  "memory_clear userId st =
     st\<lparr>inMemoryStorage :=
          filter (\<lambda>p. \<not> startsWith (fst p) (''alert:'' @ template_text userId)) (inMemoryStorage st)\<rparr>"

definition clearUserAlerts :: "jsv \<Rightarrow> redis_service \<Rightarrow> redis_service" where
  "clearUserAlerts userId st =
     (let pattern = getKey ''alert'' userId (Some ''*'')
      in if isRedisAvailable st \<and> redis st then
           (case redis_keys pattern st of
              (Inl _, st1) \<Rightarrow> memory_clear userId st1
            | (Inr keys, st1) \<Rightarrow>
                if 0 < length keys then
                  (case redis_del keys st1 of
                     (Inl _, st2) \<Rightarrow> memory_clear userId st2
                   | (Inr _, st2) \<Rightarrow> memory_clear userId st2)
                else memory_clear userId st1)
         else memory_clear userId st)"

text \<open>The service right after construction, before any \<open>connect\<close> event.\<close>

definition new_service :: "(nat \<Rightarrow> bool) \<Rightarrow> redis_service" where
  "new_service f =
     \<lparr>redis = True, inMemoryStorage = [], isRedisAvailable = False, server = [],
      clock = 0, faults = f, calls = 0\<rparr>"

section \<open>The webhook service (webhook.service.ts)\<close>

text \<open>
  The network is the environment of the dispatcher: \<open>respond n\<close> is what the \<open>n\<close>-th
  request meets, a response with its status or no response at all (a network error or the
  5000 ms timeout). \<open>events\<close> records what the dispatcher does, in order: the requests it
  posts and the delays it waits (the argument of \<open>setTimeout\<close>, in milliseconds).
  \<open>now_iso\<close> is \<open>new Date().toISOString()\<close>.
\<close>

datatype http_outcome = Status int | NetworkError

record payload =
  event :: string
  timestamp :: string
  data :: "(string \<times> jsv) list"

datatype net_event = Post val payload | Sleep nat

record network =
  respond :: "nat \<Rightarrow> http_outcome"
  requests :: nat
  events :: "net_event list"
  now_iso :: string

definition MAX_RETRIES :: nat where
  "MAX_RETRIES = 3"

definition RETRY_DELAY :: nat where
  "RETRY_DELAY = 1000"

text \<open>
  \<open>response.status >= 200 && response.status < 300\<close>; any other status, and a request
  that axios rejects, end in the \<open>catch\<close>.
\<close>

fun delivered :: "http_outcome \<Rightarrow> bool" where
  "delivered (Status s) = (200 \<le> s \<and> s < 300)"
| "delivered NetworkError = False"

definition posted :: "val \<Rightarrow> payload \<Rightarrow> network \<Rightarrow> network" where
  "posted url p w = w\<lparr>requests := Suc (requests w), events := events w @ [Post url p]\<rparr>"

definition setTimeout :: "nat \<Rightarrow> network \<Rightarrow> network" where
  "setTimeout ms w = w\<lparr>events := events w @ [Sleep ms]\<rparr>"

function sendWithRetry :: "val \<Rightarrow> payload \<Rightarrow> nat \<Rightarrow> network \<Rightarrow> bool \<times> network" where
  "sendWithRetry url p attempt w =
     (if delivered (respond w (requests w)) then (True, posted url p w)
      else if attempt < MAX_RETRIES then
        sendWithRetry url p (attempt + 1) (setTimeout (RETRY_DELAY * attempt) (posted url p w))
      else (False, posted url p w))"
  by pat_completeness auto
termination
  by (relation "measure (\<lambda>(url, p, attempt, w). MAX_RETRIES - attempt)") auto

declare sendWithRetry.simps [simp del]

text \<open>
  \<open>sendNotification\<close>: \<open>getWebhook\<close> catches its own errors and \<open>sendWithRetry\<close> returns a
  boolean on every path, so the \<open>catch\<close> of \<open>sendNotification\<close> is never entered.
\<close>

definition sendNotification ::
  "jsv \<Rightarrow> string \<Rightarrow> (string \<times> jsv) list \<Rightarrow> redis_service \<times> network
     \<Rightarrow> bool \<times> redis_service \<times> network" where
  "sendNotification userId ev d sw =
     (case getWebhook userId (fst sw) of
        (None, st1) \<Rightarrow> (False, st1, snd sw)
      | (Some webhookUrl, st1) \<Rightarrow>
          if \<not> truthy webhookUrl then (False, st1, snd sw)
          else (case sendWithRetry webhookUrl
                       \<lparr>event = ev, timestamp = now_iso (snd sw), data = d\<rparr> 1 (snd sw) of
                  (ok, w1) \<Rightarrow> (ok, st1, w1)))"

section \<open>The price service (crypto.service.ts)\<close>

text \<open>
  A callback registered with \<open>onPriceUpdate\<close> is named by a number; \<open>invoked\<close> records
  the calls made to callbacks, in order, with their arguments. \<open>errorLog\<close> records the
  errors that \<open>handlePriceUpdate\<close> catches and logs.
\<close>

record crypto_service =
  priceUpdateCallbacks :: "(string \<times> nat list) list"
  monitoredSymbols :: "string list"
  updateInterval :: bool
  invoked :: "(nat \<times> string \<times> jsv) list"
  errorLog :: "error list"

definition new_crypto :: crypto_service where
  "new_crypto =
     \<lparr>priceUpdateCallbacks = [], monitoredSymbols = [], updateInterval = False,
      invoked = [], errorLog = []\<rparr>"

definition callbacks_for :: "string \<Rightarrow> crypto_service \<Rightarrow> nat list" where
  "callbacks_for symbol c =
     (case map_of (priceUpdateCallbacks c) symbol of None \<Rightarrow> [] | Some cbs \<Rightarrow> cbs)"

definition onPriceUpdate :: "string \<Rightarrow> nat \<Rightarrow> crypto_service \<Rightarrow> crypto_service" where
  "onPriceUpdate symbol callback c =
     c\<lparr>priceUpdateCallbacks :=
          AList.update symbol (callbacks_for symbol c @ [callback]) (priceUpdateCallbacks c),
        monitoredSymbols :=
          (if symbol \<in> set (monitoredSymbols c) then monitoredSymbols c
           else monitoredSymbols c @ [symbol])\<rparr>"

text \<open>Reading a property of a stored value: a property that is not there is \<open>undefined\<close>.\<close>

fun get_prop :: "val \<Rightarrow> string \<Rightarrow> jsv" where
  "get_prop (AlertData s p b) n =
     (if n = ''symbol'' then String s else if n = ''price'' then Number p
      else if n = ''isAbove'' then Boolean b else Undefined)"
| "get_prop (Portfolio h) n = (case map_of h n of None \<Rightarrow> Undefined | Some r \<Rightarrow> Number r)"
| "get_prop (PriceData p c v m) n =
     (if n = ''price'' then Number p else if n = ''change24h'' then Number c
      else if n = ''volume24h'' then Number v else if n = ''marketCap'' then Number m
      else Undefined)"
| "get_prop (Text s) n = Undefined"
| "get_prop (JSONText v) n = Undefined"

fun js_truthy :: "jsv \<Rightarrow> bool" where
  "js_truthy Undefined = False"
| "js_truthy (Number r) = (r \<noteq> 0)"
| "js_truthy (Boolean b) = b"
| "js_truthy (String s) = (s \<noteq> [])"

text \<open>
  The operands of \<open>>=\<close> and \<open><=\<close> as numbers: \<open>undefined\<close> is NaN (\<open>None\<close>), and a
  comparison with NaN is false. The number that a string stands for is not modelled
  (none of the properties compared below is a string).
\<close>

fun to_number :: "jsv \<Rightarrow> real option" where
  "to_number Undefined = None"
| "to_number (Number r) = Some r"
| "to_number (Boolean b) = Some (if b then 1 else 0)"
| "to_number (String s) = None"

definition js_ge :: "jsv \<Rightarrow> jsv \<Rightarrow> bool" where
  "js_ge a b = (case (to_number a, to_number b) of (Some x, Some y) \<Rightarrow> y \<le> x | _ \<Rightarrow> False)"

definition js_le :: "jsv \<Rightarrow> jsv \<Rightarrow> bool" where
  "js_le a b = (case (to_number a, to_number b) of (Some x, Some y) \<Rightarrow> x \<le> y | _ \<Rightarrow> False)"

datatype condition = Above | Below

record typed_alert =
  condition :: condition
  price :: jsv
  userId :: jsv

text \<open>The conversion at the head of the loop body of \<open>handlePriceUpdate\<close>.\<close>

definition typedAlert :: "val \<Rightarrow> typed_alert" where
  "typedAlert alert =
     \<lparr>condition = (if js_truthy (get_prop alert ''isAbove'') then Above else Below),
      price = get_prop alert ''targetPrice'',
      userId = get_prop alert ''userId''\<rparr>"

definition condition_met :: "typed_alert \<Rightarrow> jsv \<Rightarrow> bool" where
  "condition_met t p =
     ((condition t = Above \<and> js_ge p (price t)) \<or> (condition t = Below \<and> js_le p (price t)))"

definition invoke :: "string \<Rightarrow> jsv \<Rightarrow> crypto_service \<Rightarrow> crypto_service" where
  "invoke symbol p c =
     c\<lparr>invoked := invoked c @ map (\<lambda>cb. (cb, symbol, p)) (callbacks_for symbol c)\<rparr>"

text \<open>
  The body of the loop of \<open>handlePriceUpdate\<close>, run over the elements that the iteration
  yields. A failing \<open>removePriceAlert\<close> leaves the loop for the \<open>catch\<close>.
\<close>

fun match_alerts ::
  "string \<Rightarrow> jsv \<Rightarrow> val list \<Rightarrow> crypto_service \<times> redis_service
     \<Rightarrow> (error + unit) \<times> crypto_service \<times> redis_service" where
  "match_alerts symbol p [] cs = (Inr (), cs)"
| "match_alerts symbol p (alert # rest) cs =
     (if condition_met (typedAlert alert) p then
        (case removePriceAlert (userId (typedAlert alert)) symbol
                (condition (typedAlert alert) = Above) (snd cs) of
           (Inl e, st1) \<Rightarrow> (Inl e, invoke symbol p (fst cs), st1)
         | (Inr _, st1) \<Rightarrow> match_alerts symbol p rest (invoke symbol p (fst cs), st1))
      else match_alerts symbol p rest cs)"

text \<open>
  \<open>for (const alert of alerts)\<close>: the statement asks its operand for an iterator. An
  array has one and yields its elements; a plain object, such as the \<open>Record\<close> that
  \<open>getPriceAlerts\<close> returns, has none, and the statement raises \<open>TypeError\<close> before the
  first run of the body, whatever the object holds. (Compiled down to a loop over
  \<open>alerts.length\<close>, the body does not run either, \<open>alerts.length\<close> being \<open>undefined\<close>.)
\<close>

datatype js_object = PlainObject "(string \<times> val) list" | ArrayOf "val list"

fun for_of :: "js_object \<Rightarrow> error + val list" where
  "for_of (ArrayOf xs) = Inr xs"
| "for_of (PlainObject r) = Inl TypeError"

definition logError :: "error \<Rightarrow> crypto_service \<Rightarrow> crypto_service" where
  "logError e c = c\<lparr>errorLog := errorLog c @ [e]\<rparr>"

definition handlePriceUpdate ::
  "string \<Rightarrow> val \<Rightarrow> crypto_service \<times> redis_service \<Rightarrow> crypto_service \<times> redis_service" where
  "handlePriceUpdate symbol d cs =
     (case setCacheWithExpiry (''price:'' @ symbol) (JSONText d) 300 (snd cs) of
        (Inl e, st1) \<Rightarrow> (logError e (fst cs), st1)
      | (Inr _, st1) \<Rightarrow>
          (case getPriceAlerts (String symbol) st1 of
             (alerts, st2) \<Rightarrow>
               (case for_of (PlainObject alerts) of
                  Inl e \<Rightarrow> (logError e (fst cs), st2)
                | Inr elements \<Rightarrow>
                    (case match_alerts symbol (get_prop d ''price'') elements (fst cs, st2) of
                       (Inl e, c1, st3) \<Rightarrow> (logError e c1, st3)
                     | (Inr _, c1, st3) \<Rightarrow> (c1, st3)))))"



section \<open>Example states\<close>

text \<open>
  The environments and states at which the properties below are evaluated: a server that
  answers every command and one that fails every command; the service before any
  \<open>connect\<close> event (only the in-memory store is used) and after one (the remote store is
  marked available); a registry holding the alert of user 42 on DOT, above 100; registries
  with the alerts of the users 1 and 12; a listener for DOT; and networks that answer every
  request with one status.
\<close>

definition no_faults :: "nat \<Rightarrow> bool" where
  "no_faults n = False"

definition all_faults :: "nat \<Rightarrow> bool" where
  "all_faults n = True"

definition failing_remote :: redis_service where
  "failing_remote = on_connect (new_service all_faults)"

definition fallback_only :: redis_service where
  "fallback_only = new_service all_faults"

definition registry_example :: redis_service where
  "registry_example = setPriceAlert (Number 42) ''DOT'' 100 True (new_service no_faults)"

definition remote_registry_example :: redis_service where
  "remote_registry_example =
     setPriceAlert (Number 42) ''DOT'' 100 True (on_connect (new_service no_faults))"

definition two_users_example :: redis_service where
  "two_users_example =
     setPriceAlert (Number 1) ''BTC'' 5 True
       (setPriceAlert (Number 12) ''DOT'' 7 False (new_service no_faults))"

definition same_symbol_example :: redis_service where
  "same_symbol_example =
     setPriceAlert (Number 1) ''DOT'' 5 True
       (setPriceAlert (Number 12) ''DOT'' 7 False (new_service no_faults))"

definition listener_example :: crypto_service where
  "listener_example = onPriceUpdate ''DOT'' 0 new_crypto"

definition quiet_network :: "int \<Rightarrow> network" where
  "quiet_network s =
     \<lparr>respond = (\<lambda>n. Status s), requests = 0, events = [], now_iso = ''2026-01-01T00:00:00.000Z''\<rparr>"

definition hook_example :: val where
  "hook_example = Text ''https://example.org/hook''"

definition payload_example :: payload where
  "payload_example = \<lparr>event = ''test'', timestamp = ''2026-01-01T00:00:00.000Z'', data = []\<rparr>"

section \<open>Basic facts\<close>

lemmas text_defs = getKey_def number_text_def nat_text.simps digit_char_def startsWith_def
  symbol_of_key_def

lemmas store_defs = memory_set_def memory_get_def memory_delete_def memory_alerts_def
  memory_clear_def new_service_def on_connect_def on_error_def elapse_def sent_def live_def
  redis_set_def redis_get_def redis_del_def redis_keys_def or_null_def or_empty_def
  no_faults_def all_faults_def failing_remote_def fallback_only_def

lemma registry_example_eq:
  "registry_example =
     \<lparr>redis = True, inMemoryStorage = [(''alert:42:DOT'', AlertData ''DOT'' 100 True)],
      isRedisAvailable = False, server = [], clock = 0, faults = no_faults, calls = 0\<rparr>"
  by (simp add: registry_example_def setPriceAlert_def text_defs memory_set_def new_service_def)

lemma remote_registry_example_eq:
  "remote_registry_example =
     \<lparr>redis = True, inMemoryStorage = [], isRedisAvailable = True,
      server = [(''alert:42:DOT'', JSONText (AlertData ''DOT'' 100 True), None)],
      clock = 0, faults = no_faults, calls = 1\<rparr>"
  by (simp add: remote_registry_example_def setPriceAlert_def text_defs store_defs)

lemma two_users_example_eq:
  "two_users_example =
     \<lparr>redis = True,
      inMemoryStorage = [(''alert:12:DOT'', AlertData ''DOT'' 7 False),
                         (''alert:1:BTC'', AlertData ''BTC'' 5 True)],
      isRedisAvailable = False, server = [], clock = 0, faults = no_faults, calls = 0\<rparr>"
  by (simp add: two_users_example_def setPriceAlert_def text_defs memory_set_def new_service_def)

lemma startsWith_iff: "startsWith s p \<longleftrightarrow> (\<exists>r. s = p @ r)"
proof
  assume "startsWith s p"
  then have "s = p @ drop (length p) s"
    by (metis append_take_drop_id startsWith_def)
  then show "\<exists>r. s = p @ r" ..
next
  assume "\<exists>r. s = p @ r"
  then show "startsWith s p"
    by (auto simp: startsWith_def)
qed

lemma map_of_filter_key:
  "map_of (filter (\<lambda>p. Q (fst p)) xs) k = (if Q k then map_of xs k else None)"
  by (induction xs) auto

lemma map_of_single_valued:
  assumes "(k, v) \<in> set xs" and "\<forall>v'. (k, v') \<in> set xs \<longrightarrow> v' = v"
  shows "map_of xs k = Some v"
proof -
  from assms(1) obtain x where x: "map_of xs k = Some x"
    using weak_map_of_SomeI by fastforce
  then have "(k, x) \<in> set xs"
    by (rule map_of_SomeD)
  with assms(2) x show ?thesis by simp
qed

text \<open>
  Assigning the entries of a list one after the other to the properties of an object: the
  last entry for a property name is the one that is read back.
\<close>

lemma map_of_foldl_update:
  "map_of (foldl (\<lambda>a p. AList.update (g (fst p)) (snd p) a) acc xs) =
   map_of (rev (map (\<lambda>p. (g (fst p), snd p)) xs) @ acc)"
proof (induction xs arbitrary: acc)
  case Nil
  show ?case by simp
next
  case (Cons x xs)
  have "map_of (foldl (\<lambda>a p. AList.update (g (fst p)) (snd p) a) acc (x # xs)) =
        map_of (rev (map (\<lambda>p. (g (fst p), snd p)) xs) @ AList.update (g (fst x)) (snd x) acc)"
    using Cons.IH by simp
  also have "\<dots> = map_of (rev (map (\<lambda>p. (g (fst p), snd p)) xs) @ (g (fst x), snd x) # acc)"
    by (simp add: update_conv')
  finally show ?case by simp
qed

subsection \<open>The commands leave the in-memory store alone\<close>

lemma memory_of_redis_keys [simp]:
  "inMemoryStorage (snd (redis_keys pat st)) = inMemoryStorage st"
  by (simp add: redis_keys_def sent_def)

lemma memory_of_redis_del [simp]:
  "inMemoryStorage (snd (redis_del ks st)) = inMemoryStorage st"
  by (simp add: redis_del_def sent_def)

lemma redis_del_ok: "\<not> faults st (calls st) \<Longrightarrow> fst (redis_del ks st) = Inr ()"
  by (simp add: redis_del_def)

lemma redis_del_removes:
  "\<not> faults st (calls st) \<Longrightarrow> k \<in> set ks \<Longrightarrow> map_of (server (snd (redis_del ks st))) k = None"
  using map_of_filter_key [of "\<lambda>k. k \<notin> set ks" "server st" k]
  by (simp add: redis_del_def sent_def)

section \<open>The alert matcher\<close>



text \<open>
  Claim C1. The matching pass is to consider, for a symbol, the alerts of every user stored
  under \<open>alert:{userId}:{symbol}\<close>. The pass fetches its alerts with
  \<open>getPriceAlerts(symbol)\<close>, whose parameter is the user id: it reads the keys that start
  with \<open>alert:{symbol}\<close>. With the alert of user 42 on DOT stored, in the in-memory store
  or on the server, the pass for DOT fetches no alert.
\<close>

theorem matcher_fetches_by_user_key:
  "memory_get ''alert:42:DOT'' registry_example = Some (AlertData ''DOT'' 100 True) \<and>
   fst (getPriceAlerts (String ''DOT'')
          (snd (setCacheWithExpiry ''price:DOT'' (JSONText (PriceData 100 0 0 0)) 300
                  registry_example))) = [] \<and>
   map_of (server remote_registry_example) ''alert:42:DOT''
     = Some (JSONText (AlertData ''DOT'' 100 True), None) \<and>
   fst (getPriceAlerts (String ''DOT'')
          (snd (setCacheWithExpiry ''price:DOT'' (JSONText (PriceData 100 0 0 0)) 300
                  remote_registry_example))) = []"
  by (simp add: registry_example_eq remote_registry_example_eq getPriceAlerts_def
      setCacheWithExpiry_def text_defs store_defs)


text \<open>
  The object that \<open>setPriceAlert\<close> stores never meets the condition of the loop body, at
  any price: the body reads the threshold from \<open>alert.targetPrice\<close>, which that object
  does not have.
\<close>

lemma stored_alert_never_matches: "\<not> condition_met (typedAlert (AlertData s t b)) q"
  by (simp add: condition_met_def typedAlert_def js_ge_def js_le_def split: option.splits)


text \<open>
  Claim C3. An alert stored with direction above and target 100 is to fire at the prices
  100 and 100.01. With that alert stored for user 42 on DOT and one listener registered for
  DOT, the pass at either price calls no callback and logs a \<open>TypeError\<close>. The loop body
  would not fire on the stored object either: it compares the price with
  \<open>alert.targetPrice\<close>, and the stored object names its threshold \<open>price\<close>.
\<close>

theorem threshold_price_fires_nothing:
  "callbacks_for ''DOT'' listener_example = [0] \<and>
   invoked (fst (handlePriceUpdate ''DOT'' (PriceData 100 0 0 0)
       (listener_example, registry_example))) = [] \<and>
   invoked (fst (handlePriceUpdate ''DOT'' (PriceData (10001 / 100) 0 0 0)
       (listener_example, registry_example))) = [] \<and>
   errorLog (fst (handlePriceUpdate ''DOT'' (PriceData 100 0 0 0)
       (listener_example, registry_example))) = [TypeError] \<and>
   price (typedAlert (AlertData ''DOT'' 100 True)) = Undefined \<and>
   \<not> condition_met (typedAlert (AlertData ''DOT'' 100 True)) (Number 100) \<and>
   match_alerts ''DOT'' (Number 100) [AlertData ''DOT'' 100 True]
       (listener_example, registry_example) = (Inr (), listener_example, registry_example)"
  by (simp add: handlePriceUpdate_def logError_def setCacheWithExpiry_def
      getPriceAlerts_def registry_example_eq listener_example_def onPriceUpdate_def new_crypto_def
      callbacks_for_def typedAlert_def condition_met_def js_ge_def js_le_def text_defs store_defs)

section \<open>The webhook dispatcher\<close>

lemma sendWithRetry_unfold:
  "sendWithRetry url p attempt w =
     (if delivered (respond w (requests w)) then (True, posted url p w)
      else if attempt < 3 then
        sendWithRetry url p (Suc attempt) (setTimeout (1000 * attempt) (posted url p w))
      else (False, posted url p w))"
  by (subst sendWithRetry.simps) (simp add: MAX_RETRIES_def RETRY_DELAY_def)

lemma respond_step [simp]: "respond (setTimeout ms (posted url p w)) = respond w"
  by (simp add: setTimeout_def posted_def)

lemma requests_step [simp]: "requests (setTimeout ms (posted url p w)) = Suc (requests w)"
  by (simp add: setTimeout_def posted_def)

text \<open>
  Claim C4. A delivery started by \<open>sendWithRetry(url, payload)\<close> (attempt 1) posts at most
  three requests. If the first three requests all fail (a status outside 200..299, or no
  response), it posts exactly three, waits 1000 ms after the first failure and 2000 ms
  after the second, and returns \<open>false\<close>. If a request succeeds, it returns \<open>true\<close> at
  once: nothing is posted or waited for after the successful request.
\<close>

theorem sendWithRetry_attempts:
  "(delivered (respond w (requests w)) \<longrightarrow>
      sendWithRetry url p 1 w =
        (True, w\<lparr>requests := requests w + 1, events := events w @ [Post url p]\<rparr>)) \<and>
   (\<not> delivered (respond w (requests w)) \<and> delivered (respond w (requests w + 1)) \<longrightarrow>
      sendWithRetry url p 1 w =
        (True, w\<lparr>requests := requests w + 2,
                  events := events w @ [Post url p, Sleep 1000, Post url p]\<rparr>)) \<and>
   (\<not> delivered (respond w (requests w)) \<and> \<not> delivered (respond w (requests w + 1)) \<and>
    delivered (respond w (requests w + 2)) \<longrightarrow>
      sendWithRetry url p 1 w =
        (True, w\<lparr>requests := requests w + 3,
                  events := events w @ [Post url p, Sleep 1000, Post url p, Sleep 2000, Post url p]\<rparr>)) \<and>
   (\<not> delivered (respond w (requests w)) \<and> \<not> delivered (respond w (requests w + 1)) \<and>
    \<not> delivered (respond w (requests w + 2)) \<longrightarrow>
      sendWithRetry url p 1 w =
        (False, w\<lparr>requests := requests w + 3,
                   events := events w @ [Post url p, Sleep 1000, Post url p, Sleep 2000, Post url p]\<rparr>))"
  by (simp add: sendWithRetry_unfold [of url p] setTimeout_def posted_def)

text \<open>
  At a URL that answers every request with status 500: three requests, the waits of
  1000 ms and 2000 ms between them, and \<open>false\<close>. At a URL that answers 200: one
  request and \<open>true\<close>.
\<close>

theorem sendWithRetry_attempts_witness:
  "sendWithRetry hook_example payload_example 1 (quiet_network 500) =
     (False, (quiet_network 500)\<lparr>requests := 3,
        events := [Post hook_example payload_example, Sleep 1000,
                   Post hook_example payload_example, Sleep 2000,
                   Post hook_example payload_example]\<rparr>) \<and>
   sendWithRetry hook_example payload_example 1 (quiet_network 200) =
     (True, (quiet_network 200)\<lparr>requests := 1,
        events := [Post hook_example payload_example]\<rparr>)"
  using sendWithRetry_attempts [of "quiet_network 500" hook_example payload_example]
    sendWithRetry_attempts [of "quiet_network 200" hook_example payload_example]
  by (simp add: quiet_network_def)

lemma getWebhook_absent:
  "memory_get (getKey ''webhook'' uid None) st = None \<Longrightarrow>
   map_of (server st) (getKey ''webhook'' uid None) = None \<Longrightarrow>
   fst (getWebhook uid st) = None"
  by (simp add: getWebhook_def redis_get_def or_null_def memory_get_def sent_def Let_def)

text \<open>
  Claim C5. For a user with no webhook URL registered (neither store holds an entry under
  \<open>webhook:{userId}\<close>), \<open>sendNotification\<close> returns \<open>false\<close> and the network is as it
  was: no request is posted and nothing is waited for. This holds whether the remote store
  is marked available or not and whether its commands fail or not; the result is a plain
  boolean, no error.
\<close>

theorem sendNotification_without_webhook:
  "memory_get (getKey ''webhook'' uid None) st = None \<Longrightarrow>
   map_of (server st) (getKey ''webhook'' uid None) = None \<Longrightarrow>
   fst (sendNotification uid ev d (st, w)) = False \<and>
   snd (snd (sendNotification uid ev d (st, w))) = w"
  using getWebhook_absent [of uid st]
  by (cases "getWebhook uid st") (simp add: sendNotification_def)

text \<open>User 7 has no webhook: a price alert for them is not sent.\<close>

theorem sendNotification_without_webhook_witness:
  "fst (sendNotification (Number 7) ''price_alert'' [(''symbol'', String ''DOT'')]
          (new_service no_faults, quiet_network 200)) = False \<and>
   snd (snd (sendNotification (Number 7) ''price_alert'' [(''symbol'', String ''DOT'')]
          (new_service no_faults, quiet_network 200))) = quiet_network 200"
  using sendNotification_without_webhook [of "Number 7" "new_service no_faults"
      "''price_alert''" "[(''symbol'', String ''DOT'')]" "quiet_network 200"]
  by (simp add: store_defs)

section \<open>The cache facade and its fallback\<close>

text \<open>
  Claim C6. With the remote store failing throughout, set and get are to behave as on a
  system that has the in-memory store only. With the remote store marked available and
  every command failing, \<open>setCacheWithExpiry\<close> throws the connection error and stores
  nothing, and \<open>getCache\<close> throws as well; on the system that uses the in-memory store
  only, the same calls store the value and read it back. (The setters and getters of
  alerts, portfolios and webhooks catch the error and use the in-memory store.)
\<close>

theorem cache_throws_when_remote_fails:
  "fst (setCacheWithExpiry ''price:DOT'' (JSONText (PriceData 5 0 0 0)) 300 failing_remote)
     = Inl ConnectionError \<and>
   memory_get ''price:DOT''
     (snd (setCacheWithExpiry ''price:DOT'' (JSONText (PriceData 5 0 0 0)) 300 failing_remote))
     = None \<and>
   fst (getCache ''price:DOT''
     (snd (setCacheWithExpiry ''price:DOT'' (JSONText (PriceData 5 0 0 0)) 300 failing_remote)))
     = Inl ConnectionError \<and>
   fst (setCacheWithExpiry ''price:DOT'' (JSONText (PriceData 5 0 0 0)) 300 fallback_only)
     = Inr () \<and>
   fst (getCache ''price:DOT''
     (snd (setCacheWithExpiry ''price:DOT'' (JSONText (PriceData 5 0 0 0)) 300 fallback_only)))
     = Inr (Some (JSONText (PriceData 5 0 0 0)))"
  by (simp add: setCacheWithExpiry_def getCache_def store_defs)

text \<open>
  The portfolio of a user is read back as it was written when every command to the remote
  store fails, whether the store is marked available or not.
\<close>

theorem portfolio_read_back:
  "\<forall>n. faults st n \<Longrightarrow>
   fst (getUserPortfolio uid (setUserPortfolio uid (Portfolio h) st)) = Portfolio h"
  by (simp add: getUserPortfolio_def setUserPortfolio_def store_defs Let_def update_conv')

theorem portfolio_read_back_witness:
  "fst (getUserPortfolio (Number 1)
          (setUserPortfolio (Number 1) (Portfolio [(''BTC'', 1 / 2)]) failing_remote))
     = Portfolio [(''BTC'', 1 / 2)]"
  using portfolio_read_back [of failing_remote "Number 1" "[(''BTC'', 1 / 2)]"]
  by (simp add: store_defs)

text \<open>
  Claim C7, as stated: a failing remote write marks the remote store unavailable. It does
  not: after \<open>setPriceAlert\<close> has caught the failure of its write, the store is still
  marked available. (The mark is cleared by the connection handlers of the client: the
  \<open>error\<close> event, the retry strategy and the \<open>catch\<close> of \<open>initializeRedis\<close>.)
\<close>

theorem failed_write_keeps_mark:
  "isRedisAvailable failing_remote = True \<and>
   isRedisAvailable (setPriceAlert (Number 1) ''DOT'' 5 True failing_remote) = True"
  by (simp add: setPriceAlert_def store_defs text_defs)

text \<open>
  Claim C7, amended. \<open>setPriceAlert\<close>, \<open>setUserPortfolio\<close> and \<open>setWebhook\<close> never change
  the availability mark, and after each of them the entry is held by one of the two
  stores: by the remote store if the mark is set and the write succeeded, by the in-memory
  store otherwise (a failing write is caught, and the entry is written to the in-memory
  store). \<open>setCacheWithExpiry\<close> does not change the mark either, and when it returns
  normally the entry is held by the store that the mark selects, on the remote store with
  its expiry time.
\<close>

theorem setters_keep_entry:
  "isRedisAvailable (setPriceAlert uid symbol p b st) = isRedisAvailable st \<and>
   (map_of (server (setPriceAlert uid symbol p b st)) (getKey ''alert'' uid (Some symbol))
      = Some (JSONText (AlertData symbol p b), None) \<or>
    memory_get (getKey ''alert'' uid (Some symbol)) (setPriceAlert uid symbol p b st)
      = Some (AlertData symbol p b)) \<and>
   isRedisAvailable (setUserPortfolio uid pf st) = isRedisAvailable st \<and>
   (map_of (server (setUserPortfolio uid pf st)) (getKey ''portfolio'' uid None)
      = Some (JSONText pf, None) \<or>
    memory_get (getKey ''portfolio'' uid None) (setUserPortfolio uid pf st) = Some pf) \<and>
   isRedisAvailable (setWebhook uid url st) = isRedisAvailable st \<and>
   (map_of (server (setWebhook uid url st)) (getKey ''webhook'' uid None)
      = Some (Text url, None) \<or>
    memory_get (getKey ''webhook'' uid None) (setWebhook uid url st) = Some (Text url)) \<and>
   isRedisAvailable (snd (setCacheWithExpiry key v ttl st)) = isRedisAvailable st \<and>
   (fst (setCacheWithExpiry key v ttl st) = Inr () \<longrightarrow>
      (if isRedisAvailable st \<and> redis st
       then map_of (server (snd (setCacheWithExpiry key v ttl st))) key
              = Some (v, Some (clock st + nat ttl))
       else memory_get key (snd (setCacheWithExpiry key v ttl st)) = Some v)) \<and>
   (isRedisAvailable st \<and> redis st \<and> faults st (calls st) \<longrightarrow>
      memory_get (getKey ''alert'' uid (Some symbol)) (setPriceAlert uid symbol p b st)
        = Some (AlertData symbol p b) \<and>
      memory_get (getKey ''portfolio'' uid None) (setUserPortfolio uid pf st) = Some pf \<and>
      memory_get (getKey ''webhook'' uid None) (setWebhook uid url st) = Some (Text url))"
  by (simp add: setPriceAlert_def setUserPortfolio_def setWebhook_def setCacheWithExpiry_def
      redis_set_def memory_set_def memory_get_def sent_def update_conv' Let_def)

text \<open>
  With every command failing and the store marked available, the alert of user 1 ends in
  the in-memory store; with the server answering, a cached price is on the server, to
  expire after 300 seconds.
\<close>

theorem setters_keep_entry_witness:
  "memory_get ''alert:1:DOT'' (setPriceAlert (Number 1) ''DOT'' 5 True failing_remote)
     = Some (AlertData ''DOT'' 5 True) \<and>
   fst (setCacheWithExpiry ''price:DOT'' (Text ''5'') 300 (on_connect (new_service no_faults)))
     = Inr () \<and>
   map_of (server (snd (setCacheWithExpiry ''price:DOT'' (Text ''5'') 300
                         (on_connect (new_service no_faults))))) ''price:DOT''
     = Some (Text ''5'', Some 300)"
  using setters_keep_entry [of "Number 1" "''DOT''" 5 True failing_remote "Portfolio []" "[]"
      "''price:DOT''" "Text ''5''" 300]
    setters_keep_entry [of "Number 1" "''DOT''" 5 True "on_connect (new_service no_faults)"
      "Portfolio []" "[]" "''price:DOT''" "Text ''5''" 300]
  by (simp add: setPriceAlert_def setCacheWithExpiry_def store_defs text_defs)

section \<open>The alert registry\<close>

text \<open>
  Claim C8, as stated: removing with a direction other than the stored one leaves the alert
  in place. It does not: user 1 holds an alert on DOT with direction above, and removing
  with direction below deletes it.
\<close>

theorem other_direction_removes_alert:
  "memory_get ''alert:1:DOT'' (setPriceAlert (Number 1) ''DOT'' 5 True (new_service no_faults))
     = Some (AlertData ''DOT'' 5 True) \<and>
   memory_get ''alert:1:DOT''
     (snd (removePriceAlert (Number 1) ''DOT'' False
             (setPriceAlert (Number 1) ''DOT'' 5 True (new_service no_faults)))) = None"
  by (simp add: setPriceAlert_def removePriceAlert_def store_defs text_defs)

lemma removePriceAlert_direction:
  "removePriceAlert uid symbol isAbove st = removePriceAlert uid symbol isAbove' st"
  by (simp add: removePriceAlert_def)

lemma removePriceAlert_memory:
  assumes "\<not> (isRedisAvailable st \<and> redis st)"
  shows "fst (removePriceAlert uid symbol isAbove st) = Inr () \<and>
         memory_get (getKey ''alert'' uid (Some symbol))
           (snd (removePriceAlert uid symbol isAbove st)) = None"
proof -
  have "removePriceAlert uid symbol isAbove st =
          (Inr (), memory_delete (getKey ''alert'' uid (Some symbol)) st)"
    using assms by (auto simp: removePriceAlert_def)
  then show ?thesis
    by (simp add: memory_delete_def memory_get_def delete_conv')
qed

lemma removePriceAlert_remote:
  assumes "isRedisAvailable st \<and> redis st" and "\<not> faults st (calls st)"
  shows "fst (removePriceAlert uid symbol isAbove st) = Inr () \<and>
         map_of (server (snd (removePriceAlert uid symbol isAbove st)))
           (getKey ''alert'' uid (Some symbol)) = None"
proof -
  have "removePriceAlert uid symbol isAbove st = redis_del [getKey ''alert'' uid (Some symbol)] st"
    using assms(1) by (auto simp: removePriceAlert_def)
  then show ?thesis
    using assms(2) by (simp add: redis_del_ok redis_del_removes)
qed

text \<open>
  Claim C8, amended. \<open>removePriceAlert(userId, symbol, isAbove)\<close> does not look at the
  direction: with either direction it does the same, which is to delete the entry under
  \<open>alert:{userId}:{symbol}\<close> from the store that the availability mark selects, the
  in-memory store when the remote one is not marked available, the remote store when it
  is and the command does not fail.
\<close>

theorem removePriceAlert_any_direction:
  "removePriceAlert uid symbol isAbove st = removePriceAlert uid symbol (\<not> isAbove) st \<and>
   (\<not> (isRedisAvailable st \<and> redis st) \<longrightarrow>
      fst (removePriceAlert uid symbol isAbove st) = Inr () \<and>
      memory_get (getKey ''alert'' uid (Some symbol))
        (snd (removePriceAlert uid symbol isAbove st)) = None) \<and>
   (isRedisAvailable st \<and> redis st \<and> \<not> faults st (calls st) \<longrightarrow>
      fst (removePriceAlert uid symbol isAbove st) = Inr () \<and>
      map_of (server (snd (removePriceAlert uid symbol isAbove st)))
        (getKey ''alert'' uid (Some symbol)) = None)"
  using removePriceAlert_direction [of uid symbol isAbove st "\<not> isAbove"]
    removePriceAlert_memory [of st uid symbol isAbove]
    removePriceAlert_remote [of st uid symbol isAbove]
  by blast

text \<open>
  The alert of user 42 on DOT, stored with direction above, is gone after a removal with
  direction below, from the in-memory store and from the remote store alike.
\<close>

theorem removePriceAlert_any_direction_witness:
  "memory_get ''alert:42:DOT'' registry_example = Some (AlertData ''DOT'' 100 True) \<and>
   memory_get ''alert:42:DOT'' (snd (removePriceAlert (Number 42) ''DOT'' False registry_example))
     = None \<and>
   map_of (server remote_registry_example) ''alert:42:DOT''
     = Some (JSONText (AlertData ''DOT'' 100 True), None) \<and>
   map_of (server (snd (removePriceAlert (Number 42) ''DOT'' False remote_registry_example)))
     ''alert:42:DOT'' = None"
  using removePriceAlert_any_direction [of "Number 42" "''DOT''" False registry_example]
    removePriceAlert_any_direction [of "Number 42" "''DOT''" False remote_registry_example]
  by (simp add: registry_example_eq remote_registry_example_eq removePriceAlert_def text_defs
      store_defs)

text \<open>
  The in-memory branch of \<open>getCache\<close> is \<open>get(key) || null\<close>: an empty string that was
  stored is read as \<open>null\<close>, at once and at any later time.
\<close>

lemma empty_string_reads_as_null:
  "memory_get ''k'' (snd (setCacheWithExpiry ''k'' (Text []) 300 (new_service no_faults)))
     = Some (Text []) \<and>
   fst (getCache ''k'' (snd (setCacheWithExpiry ''k'' (Text []) 300 (new_service no_faults))))
     = Inr None"
  by (simp add: setCacheWithExpiry_def getCache_def store_defs)

text \<open>
  Claim C9. When the remote store is unavailable (\<open>isRedisAvailable\<close> is false, or there is
  no client), \<open>setCacheWithExpiry(key, value, expirySeconds)\<close> returns normally and sets
  the entry in the in-memory store, where no expiry is recorded: the store is the one
  before with just that entry set, whatever the expiry is. The entry is there after any
  lapse of time, \<open>getCache(key)\<close> returns after any lapse of time what it returns right
  after the call, and for a non-empty value that is the value. This holds for every key,
  every value and every expiry.
\<close>

theorem fallback_entry_never_expires:
  "\<not> (isRedisAvailable st \<and> redis st) \<Longrightarrow>
   fst (setCacheWithExpiry key v ttl st) = Inr () \<and>
   inMemoryStorage (elapse dt (snd (setCacheWithExpiry key v ttl st)))
     = AList.update key v (inMemoryStorage st) \<and>
   memory_get key (elapse dt (snd (setCacheWithExpiry key v ttl st))) = Some v \<and>
   fst (getCache key (elapse dt (snd (setCacheWithExpiry key v ttl st))))
     = fst (getCache key (snd (setCacheWithExpiry key v ttl st))) \<and>
   (truthy v \<longrightarrow>
      fst (getCache key (elapse dt (snd (setCacheWithExpiry key v ttl st)))) = Inr (Some v))"
  by (auto simp add: setCacheWithExpiry_def getCache_def memory_set_def memory_get_def
      elapse_def or_null_def update_conv')

text \<open>
  A price cached for 300 seconds in the in-memory store is still there, and still read,
  after 301 seconds.
\<close>

theorem fallback_entry_never_expires_witness:
  "memory_get ''price:DOT''
     (elapse 301 (snd (setCacheWithExpiry ''price:DOT'' (JSONText (PriceData 5 0 0 0)) 300
                        (new_service no_faults))))
     = Some (JSONText (PriceData 5 0 0 0)) \<and>
   fst (getCache ''price:DOT''
          (elapse 301 (snd (setCacheWithExpiry ''price:DOT'' (JSONText (PriceData 5 0 0 0)) 300
                             (new_service no_faults)))))
     = Inr (Some (JSONText (PriceData 5 0 0 0)))"
  using fallback_entry_never_expires [where st = "new_service no_faults"
      and v = "JSONText (PriceData 5 0 0 0)" and key = "''price:DOT''" and ttl = 300 and dt = 301]
  by (simp add: setCacheWithExpiry_def getCache_def store_defs)

section \<open>Key prefixes\<close>

lemma alert_key_startsWith:
  assumes "startsWith (template_text u2) (template_text u1)"
  shows "startsWith (getKey ''alert'' u2 sy) (''alert:'' @ template_text u1)"
proof -
  from assms obtain r where "template_text u2 = template_text u1 @ r"
    by (auto simp: startsWith_iff)
  then show ?thesis
    by (simp add: startsWith_iff getKey_def)
qed

lemma memory_of_memory_clear:
  "inMemoryStorage (memory_clear u st) =
     filter (\<lambda>p. \<not> startsWith (fst p) (''alert:'' @ template_text u)) (inMemoryStorage st)"
  by (simp add: memory_clear_def)

lemma clearUserAlerts_memory:
  "inMemoryStorage (clearUserAlerts u st) =
     filter (\<lambda>p. \<not> startsWith (fst p) (''alert:'' @ template_text u)) (inMemoryStorage st)"
proof (cases "isRedisAvailable st \<and> redis st")
  case False
  then show ?thesis
    by (auto simp: clearUserAlerts_def memory_of_memory_clear)
next
  case True
  obtain r st1 where k: "redis_keys (getKey ''alert'' u (Some ''*'')) st = (r, st1)"
    by (cases "redis_keys (getKey ''alert'' u (Some ''*'')) st")
  have m1: "inMemoryStorage st1 = inMemoryStorage st"
    using memory_of_redis_keys [of "getKey ''alert'' u (Some ''*'')" st] k by simp
  show ?thesis
  proof (cases r)
    case (Inl e)
    with True k m1 show ?thesis
      by (simp add: clearUserAlerts_def memory_of_memory_clear)
  next
    case (Inr keys)
    obtain r2 st2 where d: "redis_del keys st1 = (r2, st2)"
      by (cases "redis_del keys st1")
    have m2: "inMemoryStorage st2 = inMemoryStorage st"
      using memory_of_redis_del [of keys st1] d m1 by simp
    from True k Inr d m1 m2 show ?thesis
      by (cases r2) (simp_all add: clearUserAlerts_def memory_of_memory_clear)
  qed
qed

lemma memory_alerts_entry:
  assumes "(key, v) \<in> set (inMemoryStorage st)"
    and "startsWith key (''alert:'' @ template_text u)"
    and "\<forall>p \<in> set (inMemoryStorage st).
           startsWith (fst p) (''alert:'' @ template_text u) \<and>
           symbol_of_key (fst p) = symbol_of_key key \<longrightarrow> snd p = v"
  shows "map_of (memory_alerts u st) (symbol_of_key key) = Some v"
proof -
  define matching where
    "matching = filter (\<lambda>p. startsWith (fst p) (''alert:'' @ template_text u)) (inMemoryStorage st)"
  define ys where "ys = rev (map (\<lambda>p. (symbol_of_key (fst p), snd p)) matching)"
  have eq: "map_of (memory_alerts u st) = map_of ys"
    unfolding memory_alerts_def ys_def matching_def
    using map_of_foldl_update [of symbol_of_key "[]"] by simp
  have "(key, v) \<in> set matching"
    using assms(1,2) by (simp add: matching_def)
  then have "(\<lambda>p. (symbol_of_key (fst p), snd p)) (key, v) \<in> set ys"
    unfolding ys_def set_rev set_map by (rule imageI)
  then have mem: "(symbol_of_key key, v) \<in> set ys"
    by simp
  have uniq: "\<forall>v'. (symbol_of_key key, v') \<in> set ys \<longrightarrow> v' = v"
  proof (intro allI impI)
    fix v'
    assume "(symbol_of_key key, v') \<in> set ys"
    then obtain p where p: "p \<in> set matching" "symbol_of_key (fst p) = symbol_of_key key" "snd p = v'"
      unfolding ys_def set_rev set_map by auto
    from p(1) have "p \<in> set (inMemoryStorage st)"
      and "startsWith (fst p) (''alert:'' @ template_text u)"
      by (simp_all add: matching_def)
    with assms(3) p(2) have "snd p = v" by blast
    with p(3) show "v' = v" by simp
  qed
  from mem uniq have "map_of ys (symbol_of_key key) = Some v"
    by (rule map_of_single_valued)
  with eq show ?thesis by simp
qed

text \<open>
  Claim C10, as stated: \<open>getPriceAlerts(u1)\<close> on the in-memory store also returns the alerts
  of a user whose id has that of \<open>u1\<close> as a prefix. Not when both hold an alert on the
  same symbol: the result has one property per symbol, and the entry assigned last stays.
  Users 1 and 12 both hold an alert on DOT, that of user 1 was stored last, and the
  result for user 1 holds only that one.
\<close>

theorem same_symbol_hides_alert:
  "memory_get ''alert:12:DOT'' same_symbol_example = Some (AlertData ''DOT'' 7 False) \<and>
   fst (getPriceAlerts (Number 1) same_symbol_example) = [(''DOT'', AlertData ''DOT'' 5 True)]"
  by (simp add: same_symbol_example_def getPriceAlerts_def setPriceAlert_def store_defs text_defs)

text \<open>
  Claim C10, amended. \<open>clearUserAlerts(u1)\<close> removes from the in-memory store exactly the
  entries whose key starts with \<open>alert:\<close> followed by the text of \<open>u1\<close>, with no
  separator after it, whatever the state of the remote store. So for a user \<open>u2\<close> whose
  id text starts with that of \<open>u1\<close> (1 and 12), no alert of \<open>u2\<close> is left in the in-memory
  store; and \<open>getPriceAlerts(u1)\<close>, when it reads the in-memory store, returns an alert of
  \<open>u2\<close> under its symbol, provided that no other entry with the prefix and the same symbol
  holds a different value.
\<close>

theorem prefix_reaches_other_user:
  assumes "startsWith (template_text u2) (template_text u1)"
  shows "inMemoryStorage (clearUserAlerts u1 st) =
           filter (\<lambda>p. \<not> startsWith (fst p) (''alert:'' @ template_text u1)) (inMemoryStorage st) \<and>
         memory_get (getKey ''alert'' u2 (Some symbol)) (clearUserAlerts u1 st) = None \<and>
         (\<not> (isRedisAvailable st \<and> redis st) \<and>
          memory_get (getKey ''alert'' u2 (Some symbol)) st = Some v \<and>
          (\<forall>p \<in> set (inMemoryStorage st).
              startsWith (fst p) (''alert:'' @ template_text u1) \<and>
              symbol_of_key (fst p) = symbol_of_key (getKey ''alert'' u2 (Some symbol))
              \<longrightarrow> snd p = v)
          \<longrightarrow> map_of (fst (getPriceAlerts u1 st))
                (symbol_of_key (getKey ''alert'' u2 (Some symbol))) = Some v)"
proof -
  let ?k2 = "getKey ''alert'' u2 (Some symbol)"
  have pre: "startsWith ?k2 (''alert:'' @ template_text u1)"
    using assms by (rule alert_key_startsWith)
  have a: "inMemoryStorage (clearUserAlerts u1 st) =
           filter (\<lambda>p. \<not> startsWith (fst p) (''alert:'' @ template_text u1)) (inMemoryStorage st)"
    by (rule clearUserAlerts_memory)
  have b: "memory_get ?k2 (clearUserAlerts u1 st) = None"
    unfolding memory_get_def a
    using pre map_of_filter_key [of "\<lambda>k. \<not> startsWith k (''alert:'' @ template_text u1)"
        "inMemoryStorage st" ?k2]
    by simp
  have c: "map_of (fst (getPriceAlerts u1 st)) (symbol_of_key ?k2) = Some v"
    if off: "\<not> (isRedisAvailable st \<and> redis st)"
      and stored: "memory_get ?k2 st = Some v"
      and only: "\<forall>p \<in> set (inMemoryStorage st).
              startsWith (fst p) (''alert:'' @ template_text u1) \<and>
              symbol_of_key (fst p) = symbol_of_key ?k2 \<longrightarrow> snd p = v"
  proof -
    have "(?k2, v) \<in> set (inMemoryStorage st)"
      using stored by (simp add: memory_get_def map_of_SomeD)
    then have "map_of (memory_alerts u1 st) (symbol_of_key ?k2) = Some v"
      using pre only by (rule memory_alerts_entry)
    with off show ?thesis
      by (auto simp: getPriceAlerts_def)
  qed
  from a b c show ?thesis by blast
qed

text \<open>
  User 12 holds an alert on DOT and user 1 one on BTC: clearing the alerts of user 1
  deletes that of user 12, and the alerts listed for user 1 hold it under DOT.
\<close>

theorem prefix_reaches_other_user_witness:
  "startsWith (template_text (Number 12)) (template_text (Number 1)) \<and>
   memory_get ''alert:12:DOT'' two_users_example = Some (AlertData ''DOT'' 7 False) \<and>
   memory_get ''alert:12:DOT'' (clearUserAlerts (Number 1) two_users_example) = None \<and>
   map_of (fst (getPriceAlerts (Number 1) two_users_example)) ''DOT''
     = Some (AlertData ''DOT'' 7 False)"
  using prefix_reaches_other_user [of "Number 12" "Number 1" two_users_example "''DOT''"
      "AlertData ''DOT'' 7 False"]
  by (simp add: two_users_example_eq text_defs memory_get_def)

end
